theory Spec2Isabelle
  imports Main "HOL-Library.Word"
begin

section \<open>Spans of trulens\_eval/trace/span.py\<close>

text \<open>
  A shallow embedding of \<^verbatim>\<open>trulens_eval/trace/span.py\<close>: the span-type enumeration, the
  span classes and their typed attribute fields, the \<^verbatim>\<open>AttributeProperty\<close> descriptor, and
  the properties of \<^verbatim>\<open>Span\<close> that manage the parent link, the metadata view and the
  stored span type. Python dictionaries whose iteration order the code observes are
  association lists in insertion order; the others are maps. Exceptions are values of
  type \<open>error\<close>, and a method that mutates its object returns the object it leaves behind.
  The views \<^verbatim>\<open>start_datetime\<close> and \<^verbatim>\<open>end_datetime\<close> only call two conversion functions of
  \<^verbatim>\<open>trulens_eval.utils.containers\<close> and are not part of the model.
\<close>

subsection \<open>Values, types and errors\<close>

text \<open>The members of \<^verbatim>\<open>class SpanType(Enum)\<close>, in the order of the source.\<close>

datatype SpanType =
  UNTYPED | ROOT | RETRIEVER | RERANKER | LLM | MEMORY | EMBEDDING | TOOL | AGENT | TASK | OTHER

text \<open>
  Attribute values. \<open>VNone\<close> is Python's \<^verbatim>\<open>None\<close>; a float is carried as its binary64 bit
  pattern, since no arithmetic is done on it here.
\<close>

datatype AttributeValue =
    VNone
  | VBool bool
  | VInt int
  | VFloat "64 word"
  | VStr string
  | VList "AttributeValue list"
  | VDict "(string \<times> AttributeValue) list"
  | VSpanType SpanType

text \<open>
  The type expressions that occur as \<^verbatim>\<open>typ=\<close> arguments in the source, and the bare classes
  that \<^verbatim>\<open>type(...)\<close> returns for a value.
\<close>

datatype py_type =
    TNoneType | TBool | TInt | TFloat | TStr | TAny | TJSON | TSpanType
  | TListBare | TDictBare
  | TList py_type
  | TDict py_type py_type
  | TOptional py_type

text \<open>Python's builtin \<^verbatim>\<open>type(v)\<close>.\<close>

fun type_of :: "AttributeValue \<Rightarrow> py_type" where
  "type_of VNone = TNoneType"
| "type_of (VBool _) = TBool"
| "type_of (VInt _) = TInt"
| "type_of (VFloat _) = TFloat"
| "type_of (VStr _) = TStr"
| "type_of (VList _) = TListBare"
| "type_of (VDict _) = TDictBare"
| "type_of (VSpanType _) = TSpanType"

text \<open>
  \<open>ValidationError\<close> is what pydantic's \<^verbatim>\<open>validate_python\<close> raises, \<open>KeyError\<close> what
  \<^verbatim>\<open>del d[k]\<close> and \<^verbatim>\<open>d[k]\<close> raise on a missing key, \<open>ValueError\<close> what
  \<^verbatim>\<open>SpanType.to_class\<close> raises.
\<close>

datatype error = ValidationError | KeyError | ValueError

subsection \<open>Insertion-ordered dictionaries\<close>

text \<open>\<^verbatim>\<open>d[k] = v\<close>: an existing key keeps its position, a new key goes to the end.\<close>

fun dict_setitem :: "('k \<times> 'v) list \<Rightarrow> 'k \<Rightarrow> 'v \<Rightarrow> ('k \<times> 'v) list" where
  "dict_setitem [] k v = [(k, v)]"
| "dict_setitem ((k', v') # d) k v =
     (if k' = k then (k, v) # d else (k', v') # dict_setitem d k v)"

text \<open>
  \<^verbatim>\<open>del d[k]\<close>: raises \<^verbatim>\<open>KeyError\<close> when the key is missing, and removes the key
  otherwise (a dictionary holds a key once).
\<close>

definition dict_delitem :: "('k \<times> 'v) list \<Rightarrow> 'k \<Rightarrow> error + ('k \<times> 'v) list" where
  "dict_delitem d k =
     (if k \<in> fst ` set d then Inr (filter (\<lambda>kv. fst kv \<noteq> k) d) else Inl KeyError)"

text \<open>\<^verbatim>\<open>d.get(k, default)\<close> on a map.\<close>

definition dict_get :: "('k \<rightharpoonup> 'v) \<Rightarrow> 'k \<Rightarrow> 'v \<Rightarrow> 'v" where
  "dict_get d k dflt = (case d k of None \<Rightarrow> dflt | Some v \<Rightarrow> v)"

subsection \<open>The span object\<close>

text \<open>The classes of the module that derive from \<^verbatim>\<open>Span\<close>, and \<^verbatim>\<open>Span\<close> itself.\<close>

datatype span_class =
    Span | SpanUntyped | TransSpanRecord | SpanMethodCall | TransSpanRecordAppCall
  | SpanRoot | SpanRetriever | SpanReranker | SpanLLM | SpanMemory | SpanEmbedding
  | SpanTool | SpanAgent | SpanTask | SpanOther

text \<open>\<^verbatim>\<open>cls.__name__\<close>.\<close>

fun class_name :: "span_class \<Rightarrow> string" where
  "class_name Span = ''Span''"
| "class_name SpanUntyped = ''SpanUntyped''"
| "class_name TransSpanRecord = ''TransSpanRecord''"
| "class_name SpanMethodCall = ''SpanMethodCall''"
| "class_name TransSpanRecordAppCall = ''TransSpanRecordAppCall''"
| "class_name SpanRoot = ''SpanRoot''"
| "class_name SpanRetriever = ''SpanRetriever''"
| "class_name SpanReranker = ''SpanReranker''"
| "class_name SpanLLM = ''SpanLLM''"
| "class_name SpanMemory = ''SpanMemory''"
| "class_name SpanEmbedding = ''SpanEmbedding''"
| "class_name SpanTool = ''SpanTool''"
| "class_name SpanAgent = ''SpanAgent''"
| "class_name SpanTask = ''SpanTask''"
| "class_name SpanOther = ''SpanOther''"

record SpanContext =
  trace_id :: int
  span_id :: int

text \<open>
  \<^verbatim>\<open>DictNamespace(parent=..., namespace=...)\<close>: a view of a parent dictionary. The parent
  is always the \<open>attributes\<close> of the span that owns the view, so the view keeps only its
  namespace and every operation on it takes the parent dictionary.
\<close>

record DictNamespace =
  namespace :: string

text \<open>
  The fields of a span that the code of \<^verbatim>\<open>span.py\<close> reads and writes. \<open>cls\<close> is
  \<^verbatim>\<open>self.__class__\<close>; \<open>vendor_attr\<close> is the method \<^verbatim>\<open>self.vendor_attr\<close> inherited from
  \<^verbatim>\<open>OTSpan\<close>, which namespaces an attribute name with the vendor prefix: it is kept as a
  field, so that nothing is assumed about the prefix.
\<close>

record SpanObj =
  cls :: span_class
  vendor_attr :: "string \<Rightarrow> string"
  span_context :: SpanContext
  start_timestamp :: int
  end_timestamp :: "int option"
  links :: "(SpanContext \<times> (string \<rightharpoonup> AttributeValue)) list"
  attributes :: "string \<rightharpoonup> AttributeValue"
  attributes_metadata :: DictNamespace

text \<open>
  Modelled from the spec: \<^verbatim>\<open>OTSpan.add_link\<close> and \<^verbatim>\<open>OTSpan.set_attribute\<close> are defined in
  \<^verbatim>\<open>trulens_eval/trace/__init__.py\<close>. The link set is a dictionary from the target's
  context to the link's attributes, and the attribute store a dictionary from key to
  value; adding a link and setting an attribute are the dictionary stores.
\<close>

definition add_link :: "SpanObj \<Rightarrow> SpanContext \<Rightarrow> (string \<rightharpoonup> AttributeValue) \<Rightarrow> SpanObj" where
  "add_link self ctx attrs = self\<lparr>links := dict_setitem (links self) ctx attrs\<rparr>"

definition set_attribute :: "SpanObj \<Rightarrow> string \<Rightarrow> AttributeValue \<Rightarrow> SpanObj" where
  "set_attribute self key v = self\<lparr>attributes := (attributes self)(key \<mapsto> v)\<rparr>"

subsection \<open>The parent link\<close>

text \<open>\<^verbatim>\<open>link_attributes.get(self.vendor_attr("relationship")) == "parent"\<close>.\<close>

definition is_parent_link ::
  "string \<Rightarrow> SpanContext \<times> (string \<rightharpoonup> AttributeValue) \<Rightarrow> bool" where
  "is_parent_link rel link = (snd link rel = Some (VStr ''parent''))"

text \<open>The loop of the getter: the first link whose relationship is \<^verbatim>\<open>"parent"\<close>.\<close>

fun parent_context_loop ::
  "string \<Rightarrow> (SpanContext \<times> (string \<rightharpoonup> AttributeValue)) list \<Rightarrow> SpanContext option" where
  "parent_context_loop rel [] = None"
| "parent_context_loop rel ((link_context, link_attributes) # rest) =
     (if link_attributes rel = Some (VStr ''parent'') then Some link_context
      else parent_context_loop rel rest)"

definition parent_context :: "SpanObj \<Rightarrow> SpanContext option" where
  "parent_context self =
     parent_context_loop (vendor_attr self ''relationship'') (links self)"

text \<open>
  The setter of \<^verbatim>\<open>parent_context\<close>. \<^verbatim>\<open>None\<close> returns at once; otherwise the link of the
  current parent is deleted, and the link to the new parent is added.
\<close>

definition parent_context_setter :: "SpanObj \<Rightarrow> SpanContext option \<Rightarrow> error + SpanObj" where
  "parent_context_setter self v =
     (case v of
        None \<Rightarrow> Inr self
      | Some ctx \<Rightarrow>
          (case (case parent_context self of
                   None \<Rightarrow> Inr (links self)
                 | Some p \<Rightarrow> dict_delitem (links self) p) of
             Inl e \<Rightarrow> Inl e
           | Inr ls \<Rightarrow>
               Inr (add_link (self\<lparr>links := ls\<rparr>) ctx
                      [vendor_attr self ''relationship'' \<mapsto> VStr ''parent''])))"

definition parent_span_id :: "SpanObj \<Rightarrow> int option" where
  "parent_span_id self =
     (case parent_context self of
        Some pc \<Rightarrow> Some (span_id pc)
      | None \<Rightarrow> None)"

text \<open>A sequence of parent assignments with non-null targets, stopping at the first error.\<close>

fun set_parents :: "SpanObj \<Rightarrow> SpanContext list \<Rightarrow> error + SpanObj" where
  "set_parents self [] = Inr self"
| "set_parents self (ctx # ctxs) =
     (case parent_context_setter self (Some ctx) of
        Inl e \<Rightarrow> Inl e
      | Inr self' \<Rightarrow> set_parents self' ctxs)"

text \<open>The links of a span that carry the parent relationship.\<close>

definition parent_links :: "SpanObj \<Rightarrow> (SpanContext \<times> (string \<rightharpoonup> AttributeValue)) list" where
  "parent_links self = filter (is_parent_link (vendor_attr self ''relationship'')) (links self)"

text \<open>What the setter leaves of the link set before it adds the new parent link.\<close>

definition links_after_delete ::
  "SpanObj \<Rightarrow> (SpanContext \<times> (string \<rightharpoonup> AttributeValue)) list" where
  "links_after_delete self =
     (case parent_context self of
        None \<Rightarrow> links self
      | Some p \<Rightarrow> filter (\<lambda>kv. fst kv \<noteq> p) (links self))"

subsection \<open>The descriptor \<^verbatim>\<open>AttributeProperty\<close>\<close>

text \<open>
  The state of a descriptor. \<open>typ'\<close> and \<open>default'\<close> are the attributes \<^verbatim>\<open>typ\<close> and
  \<^verbatim>\<open>default\<close>; a factory is a callable without arguments, or \<^verbatim>\<open>None\<close>. \<open>tadapter\<close> is
  the type that the \<^verbatim>\<open>TypeAdapter\<close> was built for; the attribute is read only after
  \<^verbatim>\<open>init_forward\<close> has assigned it.
\<close>

record AttributeProperty =
  name :: string
  typ' :: "py_type option"
  typ_factory :: "(unit \<Rightarrow> py_type) option"
  default' :: AttributeValue
  default_factory :: "(unit \<Rightarrow> AttributeValue) option"
  forward_initialized :: bool
  tadapter :: "py_type option"

text \<open>\<^verbatim>\<open>AttributeProperty.__init__\<close>.\<close>

definition AttributeProperty_init ::
  "string \<Rightarrow> py_type option \<Rightarrow> (unit \<Rightarrow> py_type) option \<Rightarrow> AttributeValue \<Rightarrow>
   (unit \<Rightarrow> AttributeValue) option \<Rightarrow> AttributeProperty" where
  "AttributeProperty_init n t tf d df =
     \<lparr>name = n, typ' = t, typ_factory = tf, default' = d, default_factory = df,
      forward_initialized = False, tadapter = None\<rparr>"

text \<open>
  \<^verbatim>\<open>init_forward\<close>. The parameter \<open>validate_python\<close> is pydantic's validation:
  \<open>validate_python t v\<close> holds when \<^verbatim>\<open>TypeAdapter(t).validate_python(v)\<close> returns, and the
  call raises otherwise. The flag is set before the default is validated, so a descriptor
  whose default fails validation raises on its first use only. The result is the error
  raised, if any, and the descriptor as the call leaves it.
\<close>

definition init_forward ::
  "(py_type \<Rightarrow> AttributeValue \<Rightarrow> bool) \<Rightarrow> AttributeProperty \<Rightarrow> error option \<times> AttributeProperty" where
  "init_forward validate_python self =
     (if forward_initialized self then (None, self)
      else
        let self1 = self\<lparr>forward_initialized := True\<rparr>;
            self2 = (case typ_factory self1 of
                       Some f \<Rightarrow> if typ' self1 = None then self1\<lparr>typ' := Some (f ())\<rparr> else self1
                     | None \<Rightarrow> self1);
            self3 = (case default_factory self2 of
                       Some f \<Rightarrow> if default' self2 = VNone then self2\<lparr>default' := f ()\<rparr> else self2
                     | None \<Rightarrow> self2);
            self4 = (if typ' self3 = None \<and> default' self3 \<noteq> VNone
                     then self3\<lparr>typ' := Some (type_of (default' self3))\<rparr> else self3)
        in case typ' self4 of
             None \<Rightarrow> (None, self4\<lparr>tadapter := None\<rparr>)
           | Some t \<Rightarrow>
               (if default' self4 \<noteq> VNone \<and> \<not> validate_python t (default' self4)
                then (Some ValidationError, self4\<lparr>tadapter := Some t\<rparr>)
                else (None, self4\<lparr>tadapter := Some t\<rparr>)))"

text \<open>
  \<^verbatim>\<open>__get__\<close>: on the class (\<^verbatim>\<open>obj is None\<close>) the descriptor itself, on a span the stored
  value or the default.
\<close>

datatype get_result = ReturnSelf | ReturnValue AttributeValue

definition AttributeProperty_get ::
  "(py_type \<Rightarrow> AttributeValue \<Rightarrow> bool) \<Rightarrow> AttributeProperty \<Rightarrow> SpanObj option \<Rightarrow>
   AttributeProperty \<times> (error + get_result)" where
  "AttributeProperty_get validate_python self obj =
     (case obj of
        None \<Rightarrow> (self, Inr ReturnSelf)
      | Some ob \<Rightarrow>
          (case init_forward validate_python self of
             (Some e, self') \<Rightarrow> (self', Inl e)
           | (None, self') \<Rightarrow>
               (self', Inr (ReturnValue
                  (dict_get (attributes ob) (vendor_attr ob (name self')) (default' self'))))))"

text \<open>
  \<^verbatim>\<open>__set__\<close>: the descriptor and the span as the call leaves them, and the error raised,
  if any. The value is validated, and the value given (not pydantic's result) is stored.
\<close>

definition AttributeProperty_set ::
  "(py_type \<Rightarrow> AttributeValue \<Rightarrow> bool) \<Rightarrow> AttributeProperty \<Rightarrow> SpanObj \<Rightarrow> AttributeValue \<Rightarrow>
   AttributeProperty \<times> error option \<times> SpanObj" where
  "AttributeProperty_set validate_python self obj v =
     (case init_forward validate_python self of
        (Some e, self') \<Rightarrow> (self', Some e, obj)
      | (None, self') \<Rightarrow>
          (case tadapter self' of
             Some t \<Rightarrow>
               (if validate_python t v
                then (self', None,
                      obj\<lparr>attributes := (attributes obj)(vendor_attr obj (name self') \<mapsto> v)\<rparr>)
                else (self', Some ValidationError, obj))
           | None \<Rightarrow>
               (self', None,
                obj\<lparr>attributes := (attributes obj)(vendor_attr obj (name self') \<mapsto> v)\<rparr>)))"

text \<open>\<^verbatim>\<open>__delete__\<close>.\<close>

definition AttributeProperty_delete :: "AttributeProperty \<Rightarrow> SpanObj \<Rightarrow> error + SpanObj" where
  "AttributeProperty_delete self obj =
     (case attributes obj (vendor_attr obj (name self)) of
        None \<Rightarrow> Inl KeyError
      | Some _ \<Rightarrow> Inr (obj\<lparr>attributes := (attributes obj)(vendor_attr obj (name self) := None)\<rparr>))"

text \<open>
  The default a field's declaration gives: \<^verbatim>\<open>default\<close>, or what \<^verbatim>\<open>default_factory\<close>
  returns when \<^verbatim>\<open>default\<close> is \<^verbatim>\<open>None\<close>.
\<close>

definition declared_default :: "AttributeProperty \<Rightarrow> AttributeValue" where
  "declared_default p =
     (if default' p = VNone
      then (case default_factory p of Some f \<Rightarrow> f () | None \<Rightarrow> VNone)
      else default' p)"

text \<open>
  The type a field's declaration gives: \<^verbatim>\<open>typ\<close>, or what \<^verbatim>\<open>typ_factory\<close> returns, or the
  class of the declared default when neither is given.
\<close>

definition declared_type :: "AttributeProperty \<Rightarrow> py_type option" where
  "declared_type p =
     (case typ' p of
        Some t \<Rightarrow> Some t
      | None \<Rightarrow>
          (case typ_factory p of
             Some f \<Rightarrow> Some (f ())
           | None \<Rightarrow>
               (if declared_default p \<noteq> VNone then Some (type_of (declared_default p))
                else None)))"

text \<open>
  \<^verbatim>\<open>Span.attribute_property\<close> wraps a new descriptor in pydantic's \<^verbatim>\<open>computed_field\<close>, which
  registers it and leaves the descriptor as it is.
\<close>

definition attribute_property ::
  "string \<Rightarrow> py_type option \<Rightarrow> (unit \<Rightarrow> py_type) option \<Rightarrow> AttributeValue \<Rightarrow>
   (unit \<Rightarrow> AttributeValue) option \<Rightarrow> AttributeProperty" where
  "attribute_property n t tf d df = AttributeProperty_init n t tf d df"

subsection \<open>The typed fields of the span classes\<close>

text \<open>
  One constant for each \<^verbatim>\<open>Span.attribute_property(...)\<close> of the module, named by its class
  and its field. A positional second argument is \<^verbatim>\<open>typ\<close>.
\<close>

definition Span_tags :: AttributeProperty where
  "Span_tags =
     attribute_property ''tags''
       (Some (TList TStr)) None VNone (Some (\<lambda>_. VList []))"

definition Span_span_type :: AttributeProperty where
  "Span_span_type =
     attribute_property ''span_type''
       None (Some (\<lambda>_. TSpanType)) VNone (Some (\<lambda>_. VSpanType UNTYPED))"

definition TransSpanRecord_record_id :: AttributeProperty where
  "TransSpanRecord_record_id = attribute_property ''record_id'' (Some TStr) None VNone None"

definition SpanMethodCall_inputs :: AttributeProperty where
  "SpanMethodCall_inputs =
     attribute_property ''inputs''
       (Some (TOptional (TDict TStr TAny))) None VNone None"

definition SpanMethodCall_output :: AttributeProperty where
  "SpanMethodCall_output =
     attribute_property ''output''
       (Some (TOptional TJSON)) None VNone None"

definition SpanMethodCall_error :: AttributeProperty where
  "SpanMethodCall_error = attribute_property ''error'' (Some (TOptional TAny)) None VNone None"

definition SpanRetriever_query_text :: AttributeProperty where
  "SpanRetriever_query_text = attribute_property ''query_text'' (Some TStr) None VNone None"

definition SpanRetriever_query_embedding :: AttributeProperty where
  "SpanRetriever_query_embedding =
     attribute_property ''query_embedding''
       (Some (TList TFloat)) None VNone None"

definition SpanRetriever_distance_type :: AttributeProperty where
  "SpanRetriever_distance_type =
     attribute_property ''distance_type''
       (Some TStr) None VNone None"

definition SpanRetriever_num_contexts :: AttributeProperty where
  "SpanRetriever_num_contexts = attribute_property ''num_contexts'' (Some TInt) None VNone None"

definition SpanRetriever_retrieved_contexts :: AttributeProperty where
  "SpanRetriever_retrieved_contexts =
     attribute_property ''retrieved_contexts''
       (Some (TList TStr)) None VNone None"

definition SpanRetriever_retrieved_scores :: AttributeProperty where
  "SpanRetriever_retrieved_scores =
     attribute_property ''retrieved_scores''
       (Some (TList TFloat)) None VNone None"

definition SpanRetriever_retrieved_embeddings :: AttributeProperty where
  "SpanRetriever_retrieved_embeddings =
     attribute_property ''retrieved_embeddings''
       (Some (TList (TList TFloat))) None VNone None"

definition SpanReranker_query_text :: AttributeProperty where
  "SpanReranker_query_text = attribute_property ''query_text'' (Some TStr) None VNone None"

definition SpanReranker_model_name :: AttributeProperty where
  "SpanReranker_model_name = attribute_property ''model_name'' (Some TStr) None VNone None"

definition SpanReranker_top_n :: AttributeProperty where
  "SpanReranker_top_n = attribute_property ''top_n'' (Some TInt) None VNone None"

definition SpanReranker_input_context_texts :: AttributeProperty where
  "SpanReranker_input_context_texts =
     attribute_property ''input_context_texts''
       (Some (TList TStr)) None VNone None"

definition SpanReranker_input_context_scores :: AttributeProperty where
  "SpanReranker_input_context_scores =
     attribute_property ''input_context_scores''
       (Some (TOptional (TList TFloat))) None VNone None"

definition SpanReranker_output_ranks :: AttributeProperty where
  "SpanReranker_output_ranks =
     attribute_property ''output_ranks''
       (Some (TList TInt)) None VNone None"

definition SpanLLM_model_name :: AttributeProperty where
  "SpanLLM_model_name = attribute_property ''model_name'' (Some TStr) None VNone None"

definition SpanLLM_model_type :: AttributeProperty where
  "SpanLLM_model_type = attribute_property ''model_type'' (Some TStr) None VNone None"

definition SpanLLM_temperature :: AttributeProperty where
  "SpanLLM_temperature = attribute_property ''temperature'' (Some TFloat) None VNone None"

definition SpanLLM_input_messages :: AttributeProperty where
  "SpanLLM_input_messages =
     attribute_property ''input_messages''
       (Some (TList TDictBare)) None VNone None"

definition SpanLLM_input_token_count :: AttributeProperty where
  "SpanLLM_input_token_count =
     attribute_property ''input_token_count''
       (Some TInt) None VNone None"

definition SpanLLM_output_messages :: AttributeProperty where
  "SpanLLM_output_messages =
     attribute_property ''output_messages''
       (Some (TList TDictBare)) None VNone None"

definition SpanLLM_output_token_count :: AttributeProperty where
  "SpanLLM_output_token_count =
     attribute_property ''output_token_count''
       (Some TInt) None VNone None"

definition SpanLLM_cost :: AttributeProperty where
  "SpanLLM_cost = attribute_property ''cost'' (Some TFloat) None VNone None"

definition SpanMemory_memory_type :: AttributeProperty where
  "SpanMemory_memory_type = attribute_property ''memory_type'' (Some TStr) None VNone None"

definition SpanMemory_remembered :: AttributeProperty where
  "SpanMemory_remembered = attribute_property ''remembered'' (Some TStr) None VNone None"

definition SpanEmbedding_input_text :: AttributeProperty where
  "SpanEmbedding_input_text = attribute_property ''input_text'' (Some TStr) None VNone None"

definition SpanEmbedding_model_name :: AttributeProperty where
  "SpanEmbedding_model_name = attribute_property ''model_name'' (Some TStr) None VNone None"

definition SpanEmbedding_embedding :: AttributeProperty where
  "SpanEmbedding_embedding =
     attribute_property ''embedding''
       (Some (TList TFloat)) None VNone None"

definition SpanTool_description :: AttributeProperty where
  "SpanTool_description = attribute_property ''description'' (Some TStr) None VNone None"

definition SpanAgent_description :: AttributeProperty where
  "SpanAgent_description = attribute_property ''description'' (Some TStr) None VNone None"

text \<open>The descriptors a class body declares, and the classes a class inherits from.\<close>

fun own_fields :: "span_class \<Rightarrow> AttributeProperty list" where
  "own_fields Span = [Span_tags, Span_span_type]"
| "own_fields SpanUntyped = []"
| "own_fields TransSpanRecord = [TransSpanRecord_record_id]"
| "own_fields SpanMethodCall =
     [SpanMethodCall_inputs, SpanMethodCall_output, SpanMethodCall_error]"
| "own_fields TransSpanRecordAppCall = []"
| "own_fields SpanRoot = []"
| "own_fields SpanRetriever =
     [SpanRetriever_query_text, SpanRetriever_query_embedding, SpanRetriever_distance_type, SpanRetriever_num_contexts, SpanRetriever_retrieved_contexts, SpanRetriever_retrieved_scores, SpanRetriever_retrieved_embeddings]"
| "own_fields SpanReranker =
     [SpanReranker_query_text, SpanReranker_model_name, SpanReranker_top_n, SpanReranker_input_context_texts, SpanReranker_input_context_scores, SpanReranker_output_ranks]"
| "own_fields SpanLLM =
     [SpanLLM_model_name, SpanLLM_model_type, SpanLLM_temperature, SpanLLM_input_messages, SpanLLM_input_token_count, SpanLLM_output_messages, SpanLLM_output_token_count, SpanLLM_cost]"
| "own_fields SpanMemory = [SpanMemory_memory_type, SpanMemory_remembered]"
| "own_fields SpanEmbedding =
     [SpanEmbedding_input_text, SpanEmbedding_model_name, SpanEmbedding_embedding]"
| "own_fields SpanTool = [SpanTool_description]"
| "own_fields SpanAgent = [SpanAgent_description]"
| "own_fields SpanTask = []"
| "own_fields SpanOther = []"

fun mro :: "span_class \<Rightarrow> span_class list" where
  "mro Span = [Span]"
| "mro SpanUntyped = [SpanUntyped, Span]"
| "mro TransSpanRecord = [TransSpanRecord, Span]"
| "mro SpanMethodCall = [SpanMethodCall, TransSpanRecord, Span]"
| "mro TransSpanRecordAppCall =
     [TransSpanRecordAppCall, SpanMethodCall, TransSpanRecord, Span]"
| "mro SpanRoot = [SpanRoot, TransSpanRecord, Span]"
| "mro SpanRetriever =
     [SpanRetriever, TransSpanRecordAppCall, SpanMethodCall, TransSpanRecord, Span]"
| "mro SpanReranker =
     [SpanReranker, TransSpanRecordAppCall, SpanMethodCall, TransSpanRecord, Span]"
| "mro SpanLLM =
     [SpanLLM, TransSpanRecordAppCall, SpanMethodCall, TransSpanRecord, Span]"
| "mro SpanMemory =
     [SpanMemory, TransSpanRecordAppCall, SpanMethodCall, TransSpanRecord, Span]"
| "mro SpanEmbedding =
     [SpanEmbedding, TransSpanRecordAppCall, SpanMethodCall, TransSpanRecord, Span]"
| "mro SpanTool =
     [SpanTool, TransSpanRecordAppCall, SpanMethodCall, TransSpanRecord, Span]"
| "mro SpanAgent =
     [SpanAgent, TransSpanRecordAppCall, SpanMethodCall, TransSpanRecord, Span]"
| "mro SpanTask =
     [SpanTask, TransSpanRecordAppCall, SpanMethodCall, TransSpanRecord, Span]"
| "mro SpanOther =
     [SpanOther, TransSpanRecordAppCall, SpanMethodCall, TransSpanRecord, Span]"

definition attribute_properties :: "span_class \<Rightarrow> AttributeProperty list" where
  "attribute_properties c = concat (map own_fields (mro c))"

text \<open>
  The three fields of \<^verbatim>\<open>SpanRetriever\<close> that describe the retrieved contexts one by one.
\<close>

definition retrieved_fields :: "AttributeProperty list" where
  "retrieved_fields =
     [SpanRetriever_retrieved_contexts, SpanRetriever_retrieved_scores,
      SpanRetriever_retrieved_embeddings]"

text \<open>The length of the list stored for a field, if a list is stored.\<close>

definition field_length :: "SpanObj \<Rightarrow> AttributeProperty \<Rightarrow> nat option" where
  "field_length obj p =
     (case attributes obj (vendor_attr obj (name p)) of
        Some (VList vs) \<Rightarrow> Some (length vs)
      | _ \<Rightarrow> None)"

subsection \<open>Construction, metadata\<close>

text \<open>
  Modelled from the spec: \<^verbatim>\<open>DictNamespace\<close> is defined in
  \<^verbatim>\<open>trulens_eval/utils/containers.py\<close>. It is a view that indexes the elements of its parent
  dictionary under a namespace: the item \<open>key\<close> of the view is the item of the parent whose
  key is the namespace, a separator and \<open>key\<close>. The separator \<open>sep\<close> is a parameter.
\<close>

definition DictNamespace_key :: "string \<Rightarrow> DictNamespace \<Rightarrow> string \<Rightarrow> string" where
  "DictNamespace_key sep ns key = namespace ns @ sep @ key"

definition DictNamespace_setitem ::
  "string \<Rightarrow> DictNamespace \<Rightarrow> (string \<rightharpoonup> AttributeValue) \<Rightarrow> string \<Rightarrow> AttributeValue \<Rightarrow>
   (string \<rightharpoonup> AttributeValue)" where
  "DictNamespace_setitem sep ns parent key v = parent(DictNamespace_key sep ns key \<mapsto> v)"

definition DictNamespace_getitem ::
  "string \<Rightarrow> DictNamespace \<Rightarrow> (string \<rightharpoonup> AttributeValue) \<Rightarrow> string \<Rightarrow> error + AttributeValue" where
  "DictNamespace_getitem sep ns parent key =
     (case parent (DictNamespace_key sep ns key) of
        None \<Rightarrow> Inl KeyError
      | Some v \<Rightarrow> Inr v)"

text \<open>
  \<^verbatim>\<open>Span.__init__\<close>, from the object that \<^verbatim>\<open>super().__init__\<close> leaves: the
  metadata view is bound to the span's own attributes, and the name of the constructing
  class is stored under the key of \<^verbatim>\<open>span_type\<close>.
\<close>

definition Span_init :: "SpanObj \<Rightarrow> SpanObj" where
  "Span_init self =
     set_attribute
       (self\<lparr>attributes_metadata := \<lparr>namespace = vendor_attr self ''metadata''\<rparr>\<rparr>)
       (vendor_attr self ''span_type'') (VStr (class_name (cls self)))"

text \<open>The getter of \<^verbatim>\<open>metadata\<close> reads an item of the view.\<close>

definition metadata_getitem :: "string \<Rightarrow> SpanObj \<Rightarrow> string \<Rightarrow> error + AttributeValue" where
  "metadata_getitem sep self k =
     DictNamespace_getitem sep (attributes_metadata self) (attributes self) k"

text \<open>
  The setter of \<^verbatim>\<open>metadata\<close>: \<^verbatim>\<open>for k, v in value.items(): self.attributes_metadata[k] = v\<close>.
  The argument is the list \<^verbatim>\<open>value.items()\<close>.
\<close>

fun metadata_setter :: "string \<Rightarrow> SpanObj \<Rightarrow> (string \<times> AttributeValue) list \<Rightarrow> SpanObj" where
  "metadata_setter sep self [] = self"
| "metadata_setter sep self ((k, v) # items) =
     metadata_setter sep
       (self\<lparr>attributes :=
          DictNamespace_setitem sep (attributes_metadata self) (attributes self) k v\<rparr>)
       items"

subsection \<open>The enumeration \<^verbatim>\<open>SpanType\<close>\<close>

text \<open>The value of a member: \<^verbatim>\<open>UNTYPED = SpanUntyped.__name__\<close>, and so on.\<close>

fun SpanType_value :: "SpanType \<Rightarrow> string" where
  "SpanType_value UNTYPED = class_name SpanUntyped"
| "SpanType_value ROOT = class_name SpanRoot"
| "SpanType_value RETRIEVER = class_name SpanRetriever"
| "SpanType_value RERANKER = class_name SpanReranker"
| "SpanType_value LLM = class_name SpanLLM"
| "SpanType_value MEMORY = class_name SpanMemory"
| "SpanType_value EMBEDDING = class_name SpanEmbedding"
| "SpanType_value TOOL = class_name SpanTool"
| "SpanType_value AGENT = class_name SpanAgent"
| "SpanType_value TASK = class_name SpanTask"
| "SpanType_value OTHER = class_name SpanOther"

text \<open>
  The names that the source of the module \<^verbatim>\<open>trulens_eval.trace.span\<close> binds, in its order:
  the imports, \<^verbatim>\<open>logger\<close>, \<^verbatim>\<open>T\<close> and the classes. A name is bound to one of the span classes
  or to something else.
\<close>

datatype module_attr = SpanClass span_class | NotASpanClass

definition module_namespace :: "(string \<times> module_attr) list" where
  "module_namespace =
    [(''annotations'', NotASpanClass), (''dataclasses'', NotASpanClass),
     (''datetime'', NotASpanClass), (''Enum'', NotASpanClass), (''getLogger'', NotASpanClass),
     (''Annotated'', NotASpanClass), (''Any'', NotASpanClass), (''Callable'', NotASpanClass),
     (''Dict'', NotASpanClass), (''Generic'', NotASpanClass), (''List'', NotASpanClass),
     (''Optional'', NotASpanClass), (''Type'', NotASpanClass), (''TypeVar'', NotASpanClass),
     (''ot_span'', NotASpanClass), (''ot_types'', NotASpanClass), (''pd'', NotASpanClass),
     (''pydantic_core'', NotASpanClass), (''pydantic'', NotASpanClass),
     (''computed_field'', NotASpanClass), (''Field'', NotASpanClass),
     (''TypeAdapter'', NotASpanClass), (''PlainValidator'', NotASpanClass),
     (''cs'', NotASpanClass), (''GetCoreSchemaHandler'', NotASpanClass),
     (''GetJsonSchemaHandler'', NotASpanClass), (''JsonSchemaValue'', NotASpanClass),
     (''json'', NotASpanClass), (''mod_trace'', NotASpanClass),
     (''mod_record_schema'', NotASpanClass), (''JSON'', NotASpanClass),
     (''mod_container_utils'', NotASpanClass), (''logger'', NotASpanClass),
     (''T'', NotASpanClass), (''AttributeProperty'', NotASpanClass),
     (''Span'', SpanClass Span), (''SpanUntyped'', SpanClass SpanUntyped),
     (''TransSpanRecord'', SpanClass TransSpanRecord),
     (''SpanMethodCall'', SpanClass SpanMethodCall),
     (''TransSpanRecordAppCall'', SpanClass TransSpanRecordAppCall),
     (''SpanRoot'', SpanClass SpanRoot), (''SpanTyped'', SpanClass TransSpanRecordAppCall),
     (''SpanRetriever'', SpanClass SpanRetriever), (''SpanReranker'', SpanClass SpanReranker),
     (''SpanLLM'', SpanClass SpanLLM), (''SpanMemory'', SpanClass SpanMemory),
     (''SpanEmbedding'', SpanClass SpanEmbedding), (''SpanTool'', SpanClass SpanTool),
     (''SpanAgent'', SpanClass SpanAgent), (''SpanTask'', SpanClass SpanTask),
     (''SpanOther'', SpanClass SpanOther), (''SpanType'', NotASpanClass)]"

text \<open>
  \<^verbatim>\<open>hasattr\<close> and \<^verbatim>\<open>getattr\<close> on the module. A module object has more attributes than
  the names its source binds: those that the import system sets (\<^verbatim>\<open>__name__\<close>,
  \<^verbatim>\<open>__file__\<close>, ...) and those of the module type (\<^verbatim>\<open>__class__\<close>, \<^verbatim>\<open>__dict__\<close>, ...). Which
  names these are depends on the interpreter, so they are the parameter \<open>other\<close>; none of
  them is a span class. The source binds no name of that kind, so the order of the two
  lookups is of no account.
\<close>

definition module_hasattr :: "(string \<Rightarrow> bool) \<Rightarrow> string \<Rightarrow> bool" where
  "module_hasattr other v = (map_of module_namespace v \<noteq> None \<or> other v)"

definition module_getattr :: "(string \<Rightarrow> bool) \<Rightarrow> string \<Rightarrow> module_attr" where
  "module_getattr other v =
     (case map_of module_namespace v of
        Some a \<Rightarrow> a
      | None \<Rightarrow> NotASpanClass)"

text \<open>
  The body of \<^verbatim>\<open>to_class\<close> as a function of \<^verbatim>\<open>self.value\<close>, and \<^verbatim>\<open>to_class\<close> on a member.
\<close>

definition to_class_value :: "(string \<Rightarrow> bool) \<Rightarrow> string \<Rightarrow> error + module_attr" where
  "to_class_value other v =
     (if module_hasattr other v then Inr (module_getattr other v) else Inl ValueError)"

definition to_class :: "(string \<Rightarrow> bool) \<Rightarrow> SpanType \<Rightarrow> error + module_attr" where
  "to_class other self = to_class_value other (SpanType_value self)"

subsection \<open>Examples\<close>

text \<open>
  A validator for the examples: a value conforms to a type when it has the type's shape.
  The theorems below hold for every validator.
\<close>

fun conforms :: "py_type \<Rightarrow> AttributeValue \<Rightarrow> bool" where
  "conforms TAny v = True"
| "conforms TJSON v = True"
| "conforms (TOptional t) v = (v = VNone \<or> conforms t v)"
| "conforms TNoneType v = (v = VNone)"
| "conforms TBool v = (case v of VBool _ \<Rightarrow> True | _ \<Rightarrow> False)"
| "conforms TInt v = (case v of VInt _ \<Rightarrow> True | _ \<Rightarrow> False)"
| "conforms TFloat v = (case v of VFloat _ \<Rightarrow> True | _ \<Rightarrow> False)"
| "conforms TStr v = (case v of VStr _ \<Rightarrow> True | _ \<Rightarrow> False)"
| "conforms TSpanType v = (case v of VSpanType _ \<Rightarrow> True | _ \<Rightarrow> False)"
| "conforms TListBare v = (case v of VList _ \<Rightarrow> True | _ \<Rightarrow> False)"
| "conforms TDictBare v = (case v of VDict _ \<Rightarrow> True | _ \<Rightarrow> False)"
| "conforms (TList t) v = (case v of VList vs \<Rightarrow> list_all (conforms t) vs | _ \<Rightarrow> False)"
| "conforms (TDict tk tv) v =
     (case v of VDict kvs \<Rightarrow> list_all (\<lambda>kv. conforms tk (VStr (fst kv)) \<and> conforms tv (snd kv)) kvs
      | _ \<Rightarrow> False)"

text \<open>Some attributes that a module object has besides the names its source binds.\<close>

definition module_object_attrs :: "string \<Rightarrow> bool" where
  "module_object_attrs v =
     (v \<in> set [''__name__'', ''__doc__'', ''__package__'', ''__loader__'', ''__spec__'',
                ''__file__'', ''__cached__'', ''__builtins__'', ''__class__'', ''__dict__'',
                ''__init__'', ''__repr__'', ''__getattribute__'', ''__setattr__'',
                ''__delattr__'', ''__dir__''])"

text \<open>A context, and a new retriever span with no links and no attributes.\<close>

definition context_of :: "int \<Rightarrow> SpanContext" where
  "context_of i = \<lparr>trace_id = 1, span_id = i\<rparr>"

definition new_span :: SpanObj where
  "new_span =
     \<lparr>cls = SpanRetriever, vendor_attr = (\<lambda>n. ''vendor@'' @ n), span_context = context_of 7,
      start_timestamp = 0, end_timestamp = None, links = [], attributes = Map.empty,
      attributes_metadata = \<lparr>namespace = ''temp''\<rparr>\<rparr>"

section \<open>Properties\<close>

subsection \<open>Dictionaries and the getter's loop\<close>

lemma parent_context_loop_find:
  "parent_context_loop rel ls = map_option fst (List.find (is_parent_link rel) ls)"
  by (induction ls) (auto simp: is_parent_link_def)

lemma parent_context_loop_None:
  "parent_context_loop rel ls = None \<longleftrightarrow> filter (is_parent_link rel) ls = []"
  by (induction ls) (auto simp: is_parent_link_def)

lemma parent_context_loop_key:
  "parent_context_loop rel ls = Some p \<Longrightarrow> p \<in> fst ` set ls"
  by (induction ls) (auto split: if_splits)

lemma filter_after_delete:
  "length (filter (is_parent_link rel) ls) \<le> 1 \<Longrightarrow> parent_context_loop rel ls = Some p \<Longrightarrow>
   filter (is_parent_link rel) (filter (\<lambda>kv. fst kv \<noteq> p) ls) = []"
proof (induction ls)
  case Nil
  then show ?case by simp
next
  case (Cons l ls)
  obtain c a where l: "l = (c, a)" by (cases l)
  show ?case
  proof (cases "is_parent_link rel l")
    case True
    with Cons.prems(1) have "filter (is_parent_link rel) ls = []" by simp
    moreover from True Cons.prems(2) l have "p = c" by (simp add: is_parent_link_def)
    ultimately show ?thesis using l by (simp add: filter_empty_conv)
  next
    case False
    with Cons l show ?thesis by (auto simp: is_parent_link_def)
  qed
qed

lemma filter_dict_setitem:
  "filter P ls = [] \<Longrightarrow> P (k, v) \<Longrightarrow> filter P (dict_setitem ls k v) = [(k, v)]"
  by (induction ls) (auto split: if_splits)

lemma keys_dict_setitem: "fst ` set (dict_setitem ls k v) = insert k (fst ` set ls)"
  by (induction ls) (force split: if_splits)+

lemma parent_context_loop_single:
  "filter (is_parent_link rel) ls = [(k, v)] \<Longrightarrow> parent_context_loop rel ls = Some k"
  by (induction ls) (auto simp: is_parent_link_def split: if_splits)

lemma parent_context_setter_Some:
  "parent_context_setter self (Some ctx) =
     Inr (self\<lparr>links := dict_setitem (links_after_delete self) ctx
                 [vendor_attr self ''relationship'' \<mapsto> VStr ''parent'']\<rparr>)"
  by (auto simp: parent_context_setter_def links_after_delete_def add_link_def dict_delitem_def
      parent_context_def split: option.splits dest: parent_context_loop_key)

lemma no_parent_after_delete:
  assumes "length (parent_links self) \<le> 1"
  shows "filter (is_parent_link (vendor_attr self ''relationship'')) (links_after_delete self) = []"
proof (cases "parent_context self")
  case None
  then have "filter (is_parent_link (vendor_attr self ''relationship'')) (links self) = []"
    by (simp add: parent_context_def parent_context_loop_None)
  with None show ?thesis by (simp add: links_after_delete_def)
next
  case (Some p)
  have "filter (is_parent_link (vendor_attr self ''relationship''))
          (filter (\<lambda>kv. fst kv \<noteq> p) (links self)) = []"
    using assms Some by (intro filter_after_delete) (simp_all add: parent_links_def parent_context_def)
  with Some show ?thesis by (simp add: links_after_delete_def del: filter_filter)
qed

lemma parent_context_setter_step:
  assumes "length (parent_links self) \<le> 1"
    and "parent_context_setter self (Some ctx) = Inr self'"
  shows "parent_links self' = [(ctx, [vendor_attr self ''relationship'' \<mapsto> VStr ''parent''])]"
    and "parent_context self' = Some ctx"
    and "vendor_attr self' = vendor_attr self"
    and "fst ` set (links self') = insert ctx (fst ` set (links_after_delete self))"
proof -
  let ?rel = "vendor_attr self ''relationship''"
  let ?pa = "[?rel \<mapsto> VStr ''parent'']"
  from assms(2) have self': "self' = self\<lparr>links := dict_setitem (links_after_delete self) ctx ?pa\<rparr>"
    by (simp add: parent_context_setter_Some)
  have "is_parent_link ?rel (ctx, ?pa)" by (simp add: is_parent_link_def)
  with no_parent_after_delete[OF assms(1)]
  have f: "filter (is_parent_link ?rel) (dict_setitem (links_after_delete self) ctx ?pa) = [(ctx, ?pa)]"
    by (rule filter_dict_setitem)
  show "parent_links self' = [(ctx, ?pa)]" using f by (simp add: self' parent_links_def)
  show "parent_context self' = Some ctx"
    using parent_context_loop_single[OF f] by (simp add: self' parent_context_def)
  show "vendor_attr self' = vendor_attr self" by (simp add: self')
  show "fst ` set (links self') = insert ctx (fst ` set (links_after_delete self))"
    by (simp add: self' keys_dict_setitem)
qed

lemma set_parents_snoc:
  "set_parents self (ctxs @ [ctx]) =
     (case set_parents self ctxs of Inl e \<Rightarrow> Inl e | Inr s \<Rightarrow> parent_context_setter s (Some ctx))"
  by (induction ctxs arbitrary: self) (auto split: sum.splits)

lemma set_parents_invariant:
  assumes "length (parent_links self) \<le> 1"
  shows "\<exists>self'. set_parents self ctxs = Inr self' \<and> length (parent_links self') \<le> 1 \<and>
           vendor_attr self' = vendor_attr self \<and>
           (ctxs \<noteq> [] \<longrightarrow> parent_context self' = Some (last ctxs) \<and>
              parent_links self' =
                [(last ctxs, [vendor_attr self ''relationship'' \<mapsto> VStr ''parent''])])"
proof (induction ctxs rule: rev_induct)
  case Nil
  with assms show ?case by simp
next
  case (snoc ctx ctxs)
  then obtain s where s: "set_parents self ctxs = Inr s" "length (parent_links s) \<le> 1"
    "vendor_attr s = vendor_attr self" by blast
  obtain s' where s': "parent_context_setter s (Some ctx) = Inr s'"
    by (simp add: parent_context_setter_Some)
  have "set_parents self (ctxs @ [ctx]) = Inr s'"
    using s(1) s' by (simp add: set_parents_snoc)
  moreover have "parent_links s' = [(ctx, [vendor_attr self ''relationship'' \<mapsto> VStr ''parent''])]"
    using parent_context_setter_step(1)[OF s(2) s'] s(3) by simp
  moreover have "parent_context s' = Some ctx"
    by (rule parent_context_setter_step(2)[OF s(2) s'])
  moreover have "vendor_attr s' = vendor_attr self"
    using parent_context_setter_step(3)[OF s(2) s'] s(3) by simp
  moreover from calculation(2) have "length (parent_links s') \<le> 1" by simp
  ultimately show ?case unfolding last_snoc by blast
qed

subsection \<open>Forward initialisation\<close>

lemma init_forward_initialized:
  assumes "init_forward V p = (e, p')"
  shows "forward_initialized p'" and "name p' = name p"
  using assms
  by (auto simp: init_forward_def Let_def split: if_splits option.splits)

lemma init_forward_again:
  assumes "init_forward V p = (e, p')"
  shows "init_forward V p' = (None, p')"
  using init_forward_initialized(1)[OF assms] by (simp add: init_forward_def)

lemma init_forward_error:
  "init_forward V p = (Some e, p') \<Longrightarrow> e = ValidationError"
  by (auto simp: init_forward_def Let_def split: if_splits option.splits)

lemma init_forward_default:
  assumes "init_forward V p = (e, p')" and "\<not> forward_initialized p"
  shows "default' p' = declared_default p"
  using assms
  by (auto simp: init_forward_def declared_default_def Let_def split: if_splits option.splits)

lemma attribute_roundtrip_any:
  assumes "init_forward V q = (None, p')"
  shows "attributes s (vendor_attr s (name q)) = None \<Longrightarrow>
           AttributeProperty_get V q (Some s) = (p', Inr (ReturnValue (default' p')))"
    and "\<forall>t. tadapter p' = Some t \<longrightarrow> V t v \<Longrightarrow>
           \<exists>s'. AttributeProperty_set V q s v = (p', None, s')
                \<and> AttributeProperty_get V p' (Some s') = (p', Inr (ReturnValue v))"
proof -
  assume "attributes s (vendor_attr s (name q)) = None"
  then show "AttributeProperty_get V q (Some s) = (p', Inr (ReturnValue (default' p')))"
    using assms init_forward_initialized(2)[OF assms]
    by (simp add: AttributeProperty_get_def dict_get_def)
next
  assume ok: "\<forall>t. tadapter p' = Some t \<longrightarrow> V t v"
  let ?s' = "s\<lparr>attributes := (attributes s)(vendor_attr s (name p') \<mapsto> v)\<rparr>"
  have "AttributeProperty_set V q s v = (p', None, ?s')"
    using assms ok by (simp add: AttributeProperty_set_def split: option.splits)
  moreover have "AttributeProperty_get V p' (Some ?s') = (p', Inr (ReturnValue v))"
    using init_forward_again[OF assms] by (simp add: AttributeProperty_get_def dict_get_def)
  ultimately show "\<exists>s'. AttributeProperty_set V q s v = (p', None, s')
      \<and> AttributeProperty_get V p' (Some s') = (p', Inr (ReturnValue v))"
    by blast
qed

text \<open>
  Every field a class declares or inherits has a type, and its forward initialisation
  succeeds when the validator accepts the two defaults that are not \<^verbatim>\<open>None\<close>: the empty
  list of \<^verbatim>\<open>tags\<close> and the member \<^verbatim>\<open>UNTYPED\<close> of \<^verbatim>\<open>span_type\<close>.
\<close>

lemmas field_defs =
  Span_tags_def Span_span_type_def TransSpanRecord_record_id_def SpanMethodCall_inputs_def
  SpanMethodCall_output_def SpanMethodCall_error_def SpanRetriever_query_text_def
  SpanRetriever_query_embedding_def SpanRetriever_distance_type_def
  SpanRetriever_num_contexts_def SpanRetriever_retrieved_contexts_def
  SpanRetriever_retrieved_scores_def SpanRetriever_retrieved_embeddings_def
  SpanReranker_query_text_def SpanReranker_model_name_def SpanReranker_top_n_def
  SpanReranker_input_context_texts_def SpanReranker_input_context_scores_def
  SpanReranker_output_ranks_def SpanLLM_model_name_def SpanLLM_model_type_def
  SpanLLM_temperature_def SpanLLM_input_messages_def SpanLLM_input_token_count_def
  SpanLLM_output_messages_def SpanLLM_output_token_count_def SpanLLM_cost_def
  SpanMemory_memory_type_def SpanMemory_remembered_def SpanEmbedding_input_text_def
  SpanEmbedding_model_name_def SpanEmbedding_embedding_def SpanTool_description_def
  SpanAgent_description_def

lemma declared_field_init:
  assumes "p \<in> set (attribute_properties c)"
    and "V (TList TStr) (VList [])" and "V TSpanType (VSpanType UNTYPED)"
  shows "\<exists>p' t. init_forward V p = (None, p') \<and> tadapter p' = Some t
           \<and> declared_type p = Some t \<and> default' p' = declared_default p"
proof -
  from assms(1) have "p \<in> set (concat (map own_fields (mro c)))"
    by (simp add: attribute_properties_def)
  then obtain k where k: "p \<in> set (own_fields k)" by auto
  show ?thesis
    by (cases k; use k assms(2,3) in
        \<open>auto simp: field_defs attribute_property_def AttributeProperty_init_def
          init_forward_def declared_default_def declared_type_def\<close>)
qed

lemma retrieved_fields_init:
  assumes "p \<in> set retrieved_fields"
  shows "\<exists>t. typ' p = Some t \<and>
          init_forward V p = (None, p\<lparr>forward_initialized := True, tadapter := Some t\<rparr>)"
  using assms
  by (auto simp: retrieved_fields_def SpanRetriever_retrieved_contexts_def
      SpanRetriever_retrieved_scores_def SpanRetriever_retrieved_embeddings_def
      attribute_property_def AttributeProperty_init_def init_forward_def)

subsection \<open>The enumeration and the module\<close>

lemma to_class_members:
  "\<exists>c. to_class other m = Inr (SpanClass c) \<and> class_name c = SpanType_value m"
  by (cases m)
    (simp_all add: to_class_def to_class_value_def module_hasattr_def module_getattr_def
      module_namespace_def)



subsection \<open>The metadata view\<close>

lemma DictNamespace_key_inj:
  "DictNamespace_key sep ns k = DictNamespace_key sep ns k' \<longleftrightarrow> k = k'"
  by (simp add: DictNamespace_key_def)

lemma DictNamespace_key_image:
  "DictNamespace_key sep ns k \<in> DictNamespace_key sep ns ` A \<longleftrightarrow> k \<in> A"
  by (auto simp: DictNamespace_key_inj)

lemma metadata_setter_frame:
  "metadata_setter sep self d = self\<lparr>attributes := attributes (metadata_setter sep self d)\<rparr>"
  by (induction sep self d rule: metadata_setter.induct) simp_all

lemma metadata_setter_view:
  "attributes_metadata (metadata_setter sep self d) = attributes_metadata self"
  by (induction sep self d rule: metadata_setter.induct) simp_all

lemma metadata_setter_other:
  "a \<notin> DictNamespace_key sep (attributes_metadata self) ` fst ` set d \<Longrightarrow>
   attributes (metadata_setter sep self d) a = attributes self a"
  by (induction sep self d rule: metadata_setter.induct)
    (auto simp: DictNamespace_setitem_def)

lemma metadata_setter_item:
  "distinct (map fst d) \<Longrightarrow> (k, v) \<in> set d \<Longrightarrow>
   attributes (metadata_setter sep self d)
     (DictNamespace_key sep (attributes_metadata self) k) = Some v"
proof (induction sep self d rule: metadata_setter.induct)
  case (1 sep self)
  then show ?case by simp
next
  case (2 sep self k' v' items)
  let ?self = "self\<lparr>attributes :=
          DictNamespace_setitem sep (attributes_metadata self) (attributes self) k' v'\<rparr>"
  show ?case
  proof (cases "(k, v) = (k', v')")
    case True
    with "2.prems" have "k \<notin> fst ` set items" by simp
    then have "DictNamespace_key sep (attributes_metadata ?self) k
        \<notin> DictNamespace_key sep (attributes_metadata ?self) ` fst ` set items"
      by (simp only: DictNamespace_key_image) simp
    from metadata_setter_other[OF this] True show ?thesis
      by (simp add: DictNamespace_setitem_def)
  next
    case False
    with "2.prems" have "distinct (map fst items)" "(k, v) \<in> set items" by auto
    from "2.IH"[OF this] show ?thesis by simp
  qed
qed

subsection \<open>Two assignments in a row, and the examples\<close>

lemma set_parents_two:
  assumes "length (parent_links self) \<le> 1"
  shows "\<exists>self''. set_parents self [X, Y] = Inr self'' \<and> parent_context self'' = Some Y
           \<and> length (parent_links self'') = 1 \<and> (X \<noteq> Y \<longrightarrow> X \<notin> fst ` set (links self''))"
proof -
  obtain s1 where s1: "parent_context_setter self (Some X) = Inr s1"
    by (simp add: parent_context_setter_Some)
  obtain s2 where s2: "parent_context_setter s1 (Some Y) = Inr s2"
    by (simp add: parent_context_setter_Some)
  note st1 = parent_context_setter_step[OF assms s1]
  from st1(1) have inv1: "length (parent_links s1) \<le> 1" by simp
  note st2 = parent_context_setter_step[OF inv1 s2]
  have "X \<notin> fst ` set (links_after_delete s1)"
    using st1(2) by (auto simp: links_after_delete_def)
  with st2(4) have "X \<noteq> Y \<longrightarrow> X \<notin> fst ` set (links s2)" by simp
  moreover have "set_parents self [X, Y] = Inr s2" using s1 s2 by simp
  moreover from st2(1) have "length (parent_links s2) = 1" by simp
  ultimately show ?thesis using st2(2) by blast
qed

lemma new_span_no_parent: "length (parent_links new_span) \<le> 1"
  by (simp add: parent_links_def new_span_def)

lemma scores_init:
  "init_forward conforms SpanRetriever_retrieved_scores =
     (None, SpanRetriever_retrieved_scores\<lparr>forward_initialized := True, tadapter := Some (TList TFloat)\<rparr>)"
  by (simp add: init_forward_def SpanRetriever_retrieved_scores_def attribute_property_def
      AttributeProperty_init_def)

section \<open>The claims\<close>

text \<open>
  C1, as the code has it. Let \<open>p\<close> be a typed field that the span class \<open>c\<close> declares or
  inherits, and let the validator accept the declared defaults. Forward initialisation
  of \<open>p\<close> succeeds and gives the descriptor \<open>p'\<close>, whose adapter is built for the declared
  type \<open>t\<close>. On the first use (\<open>p\<close>) and on every later use (\<open>p'\<close>): a read of the field on a
  span that does not hold the field's key returns the declared default; a write of a
  value that conforms to \<open>t\<close> succeeds, after which the read returns exactly that value;
  and on a span as \<^verbatim>\<open>Span.__init__\<close> leaves it, which always holds the key of
  \<^verbatim>\<open>span_type\<close>, the read of \<^verbatim>\<open>span_type\<close> returns the name of the span's class.
\<close>

theorem attribute_roundtrip:
  assumes "p \<in> set (attribute_properties c)"
    and "V (TList TStr) (VList [])" and "V TSpanType (VSpanType UNTYPED)"
  shows "\<exists>p' t. init_forward V p = (None, p') \<and> tadapter p' = Some t
     \<and> declared_type p = Some t
     \<and> (\<forall>q \<in> {p, p'}.
          (attributes s (vendor_attr s (name p)) = None \<longrightarrow>
             AttributeProperty_get V q (Some s) = (p', Inr (ReturnValue (declared_default p))))
        \<and> (V t v \<longrightarrow>
             (\<exists>s'. AttributeProperty_set V q s v = (p', None, s')
                \<and> AttributeProperty_get V p' (Some s') = (p', Inr (ReturnValue v))))
        \<and> (name p = ''span_type'' \<longrightarrow>
             AttributeProperty_get V q (Some (Span_init s)) =
               (p', Inr (ReturnValue (VStr (class_name (cls s)))))))"
proof -
  from declared_field_init[OF assms] obtain p' t where
    i: "init_forward V p = (None, p')" and t: "tadapter p' = Some t"
    and dt: "declared_type p = Some t"
    and d: "default' p' = declared_default p"
    by blast
  have i': "init_forward V p' = (None, p')" by (rule init_forward_again[OF i])
  have n: "name p' = name p" by (rule init_forward_initialized(2)[OF i])
  have "(attributes s (vendor_attr s (name p)) = None \<longrightarrow>
             AttributeProperty_get V q (Some s) = (p', Inr (ReturnValue (declared_default p))))
        \<and> (V t v \<longrightarrow>
             (\<exists>s'. AttributeProperty_set V q s v = (p', None, s')
                \<and> AttributeProperty_get V p' (Some s') = (p', Inr (ReturnValue v))))
        \<and> (name p = ''span_type'' \<longrightarrow>
             AttributeProperty_get V q (Some (Span_init s)) =
               (p', Inr (ReturnValue (VStr (class_name (cls s))))))"
    if q: "init_forward V q = (None, p')" "name q = name p" for q
  proof (intro conjI impI)
    assume "attributes s (vendor_attr s (name p)) = None"
    with attribute_roundtrip_any(1)[OF q(1), where s = s] q(2) d
    show "AttributeProperty_get V q (Some s) = (p', Inr (ReturnValue (declared_default p)))"
      by simp
  next
    assume "V t v"
    with attribute_roundtrip_any(2)[OF q(1), where s = s and v = v] t
    show "\<exists>s'. AttributeProperty_set V q s v = (p', None, s')
        \<and> AttributeProperty_get V p' (Some s') = (p', Inr (ReturnValue v))"
      by simp
  next
    assume "name p = ''span_type''"
    with q n show "AttributeProperty_get V q (Some (Span_init s)) =
        (p', Inr (ReturnValue (VStr (class_name (cls s)))))"
      by (simp add: AttributeProperty_get_def dict_get_def Span_init_def set_attribute_def)
  qed
  from this[OF i refl] this[OF i' n] i t dt show ?thesis
    by (intro exI[of _ p'] exI[of _ t]) simp
qed

theorem attribute_roundtrip_witness:
  "SpanRetriever_retrieved_scores \<in> set (attribute_properties SpanRetriever)
 \<and> conforms (TList TStr) (VList []) \<and> conforms TSpanType (VSpanType UNTYPED)
 \<and> attributes new_span (vendor_attr new_span (name SpanRetriever_retrieved_scores)) = None
 \<and> AttributeProperty_get conforms SpanRetriever_retrieved_scores (Some new_span) =
     (SpanRetriever_retrieved_scores\<lparr>forward_initialized := True, tadapter := Some (TList TFloat)\<rparr>,
      Inr (ReturnValue VNone))
 \<and> conforms (TList TFloat) (VList [VFloat 0])
 \<and> (\<exists>s'. AttributeProperty_set conforms SpanRetriever_retrieved_scores new_span (VList [VFloat 0]) =
       (SpanRetriever_retrieved_scores\<lparr>forward_initialized := True, tadapter := Some (TList TFloat)\<rparr>,
        None, s')
     \<and> AttributeProperty_get conforms
          (SpanRetriever_retrieved_scores\<lparr>forward_initialized := True, tadapter := Some (TList TFloat)\<rparr>)
          (Some s') =
       (SpanRetriever_retrieved_scores\<lparr>forward_initialized := True, tadapter := Some (TList TFloat)\<rparr>,
        Inr (ReturnValue (VList [VFloat 0]))))"
proof -
  let ?p = "SpanRetriever_retrieved_scores"
  let ?p' = "?p\<lparr>forward_initialized := True, tadapter := Some (TList TFloat)\<rparr>"
  have m: "?p \<in> set (attribute_properties SpanRetriever)"
    by (simp add: attribute_properties_def)
  have v1: "conforms (TList TStr) (VList [])" and v2: "conforms TSpanType (VSpanType UNTYPED)"
    and ok: "conforms (TList TFloat) (VList [VFloat 0])"
    by simp_all
  have unset: "attributes new_span (vendor_attr new_span (name ?p)) = None"
    by (simp add: new_span_def)
  have d: "declared_default ?p = VNone"
    by (simp add: declared_default_def SpanRetriever_retrieved_scores_def attribute_property_def
        AttributeProperty_init_def)
  from attribute_roundtrip[OF m v1 v2, of new_span "VList [VFloat 0]"] scores_init
  have "(attributes new_span (vendor_attr new_span (name ?p)) = None \<longrightarrow>
           AttributeProperty_get conforms ?p (Some new_span) =
             (?p', Inr (ReturnValue (declared_default ?p))))
      \<and> (conforms (TList TFloat) (VList [VFloat 0]) \<longrightarrow>
           (\<exists>s'. AttributeProperty_set conforms ?p new_span (VList [VFloat 0]) = (?p', None, s')
              \<and> AttributeProperty_get conforms ?p' (Some s') =
                  (?p', Inr (ReturnValue (VList [VFloat 0])))))"
    by auto
  with m v1 v2 ok unset d show ?thesis by simp
qed

text \<open>
  On a new retriever span, to which no field was ever assigned, the read of \<^verbatim>\<open>span_type\<close>
  returns the string \<^verbatim>\<open>"SpanRetriever"\<close> that the constructor stored, not the declared
  default \<^verbatim>\<open>SpanType.UNTYPED\<close>.
\<close>

theorem span_type_read_not_default:
  "Span_span_type \<in> set (attribute_properties SpanRetriever)
 \<and> declared_default Span_span_type = VSpanType UNTYPED
 \<and> snd (AttributeProperty_get conforms Span_span_type (Some (Span_init new_span)))
     = Inr (ReturnValue (VStr ''SpanRetriever''))
 \<and> snd (AttributeProperty_get conforms Span_span_type (Some (Span_init new_span)))
     \<noteq> Inr (ReturnValue (declared_default Span_span_type))"
  by (simp add: attribute_properties_def declared_default_def Span_span_type_def
      attribute_property_def AttributeProperty_init_def AttributeProperty_get_def
      init_forward_def dict_get_def Span_init_def set_attribute_def new_span_def)

text \<open>
  C2. A write of a value that the field's type adapter rejects raises the validation error
  and returns the span as it was; the read that follows returns the stored value or the
  default, which is what a read before the write returned.
\<close>

theorem failed_write_keeps_span:
  assumes "init_forward V p = (e, p')" and "tadapter p' = Some t" and "\<not> V t v"
  shows "AttributeProperty_set V p s v = (p', Some ValidationError, s)
       \<and> AttributeProperty_get V p' (Some s) =
           (p', Inr (ReturnValue (dict_get (attributes s) (vendor_attr s (name p)) (default' p'))))
       \<and> (\<forall>r. AttributeProperty_get V p (Some s) = (p', Inr r) \<longrightarrow>
              AttributeProperty_get V p' (Some s) = (p', Inr r))"
proof (intro conjI allI impI)
  show "AttributeProperty_set V p s v = (p', Some ValidationError, s)"
  proof (cases e)
    case None
    with assms show ?thesis by (simp add: AttributeProperty_set_def)
  next
    case (Some err)
    with assms(1) init_forward_error[of V p err p'] show ?thesis
      by (simp add: AttributeProperty_set_def)
  qed
next
  show get': "AttributeProperty_get V p' (Some s) =
      (p', Inr (ReturnValue (dict_get (attributes s) (vendor_attr s (name p)) (default' p'))))"
    using init_forward_again[OF assms(1)] init_forward_initialized(2)[OF assms(1)]
    by (simp add: AttributeProperty_get_def)
  fix r
  assume "AttributeProperty_get V p (Some s) = (p', Inr r)"
  with assms(1) get' show "AttributeProperty_get V p' (Some s) = (p', Inr r)"
    using init_forward_initialized(2)[OF assms(1)]
    by (cases e) (auto simp: AttributeProperty_get_def)
qed

theorem failed_write_keeps_span_witness:
  "init_forward conforms SpanRetriever_retrieved_scores =
     (None, SpanRetriever_retrieved_scores\<lparr>forward_initialized := True, tadapter := Some (TList TFloat)\<rparr>)
 \<and> \<not> conforms (TList TFloat) (VStr ''high'')
 \<and> AttributeProperty_set conforms SpanRetriever_retrieved_scores (Span_init new_span) (VStr ''high'') =
     (SpanRetriever_retrieved_scores\<lparr>forward_initialized := True, tadapter := Some (TList TFloat)\<rparr>,
      Some ValidationError, Span_init new_span)
 \<and> AttributeProperty_get conforms
      (SpanRetriever_retrieved_scores\<lparr>forward_initialized := True, tadapter := Some (TList TFloat)\<rparr>)
      (Some (Span_init new_span)) =
     (SpanRetriever_retrieved_scores\<lparr>forward_initialized := True, tadapter := Some (TList TFloat)\<rparr>,
      Inr (ReturnValue VNone))"
proof -
  let ?p' = "SpanRetriever_retrieved_scores\<lparr>forward_initialized := True, tadapter := Some (TList TFloat)\<rparr>"
  have t: "tadapter ?p' = Some (TList TFloat)" by simp
  have bad: "\<not> conforms (TList TFloat) (VStr ''high'')" by simp
  have d: "dict_get (attributes (Span_init new_span))
             (vendor_attr (Span_init new_span) (name SpanRetriever_retrieved_scores)) (default' ?p') = VNone"
    by (simp add: dict_get_def Span_init_def set_attribute_def new_span_def
        SpanRetriever_retrieved_scores_def attribute_property_def AttributeProperty_init_def)
  from failed_write_keeps_span[OF scores_init t bad, of "Span_init new_span"] d scores_init bad
  show ?thesis by simp
qed

text \<open>
  C3. On a span whose link set holds at most one parent link, as every span does whose
  parent links were made by the setter, a sequence of parent assignments with non-null
  targets never raises, and after each assignment of the sequence the link set holds at
  most one parent link and \<open>parent_context\<close> is the target assigned last. After the
  parent is set to \<open>X\<close> and then to \<open>Y\<close>, \<open>parent_context\<close> is \<open>Y\<close>, exactly one parent link
  exists, and no link to \<open>X\<close> is left (when \<open>Y\<close> is another context than \<open>X\<close>).
\<close>

theorem parent_link_unique:
  assumes "length (parent_links self) \<le> 1"
  shows "(\<forall>n. \<exists>self'. set_parents self (take n ctxs) = Inr self'
              \<and> length (parent_links self') \<le> 1
              \<and> (take n ctxs \<noteq> [] \<longrightarrow> parent_context self' = Some (last (take n ctxs))))
       \<and> (\<exists>self''. set_parents self [X, Y] = Inr self''
              \<and> parent_context self'' = Some Y
              \<and> length (parent_links self'') = 1
              \<and> (X \<noteq> Y \<longrightarrow> X \<notin> fst ` set (links self'')))"
proof
  show "\<forall>n. \<exists>self'. set_parents self (take n ctxs) = Inr self'
              \<and> length (parent_links self') \<le> 1
              \<and> (take n ctxs \<noteq> [] \<longrightarrow> parent_context self' = Some (last (take n ctxs)))"
  proof
    fix n
    from set_parents_invariant[OF assms, of "take n ctxs"]
    show "\<exists>self'. set_parents self (take n ctxs) = Inr self'
              \<and> length (parent_links self') \<le> 1
              \<and> (take n ctxs \<noteq> [] \<longrightarrow> parent_context self' = Some (last (take n ctxs)))"
      by blast
  qed
  show "\<exists>self''. set_parents self [X, Y] = Inr self''
              \<and> parent_context self'' = Some Y
              \<and> length (parent_links self'') = 1
              \<and> (X \<noteq> Y \<longrightarrow> X \<notin> fst ` set (links self''))"
    by (rule set_parents_two[OF assms])
qed

theorem parent_link_unique_witness:
  "length (parent_links new_span) \<le> 1
 \<and> (\<exists>self''. set_parents new_span [context_of 1, context_of 2] = Inr self''
        \<and> parent_context self'' = Some (context_of 2)
        \<and> length (parent_links self'') = 1
        \<and> context_of 1 \<notin> fst ` set (links self''))"
proof -
  have h: "length (parent_links new_span) \<le> 1" by (rule new_span_no_parent)
  have ne: "context_of 1 \<noteq> context_of 2" by (simp add: context_of_def)
  from parent_link_unique[OF h, of "[]" "context_of 1" "context_of 2"] ne h
  show ?thesis by blast
qed

text \<open>
  C4. \<open>parent_span_id\<close> is the span id of the context of the first link whose relationship
  attribute is \<^verbatim>\<open>"parent"\<close>, and it is \<^verbatim>\<open>None\<close> exactly when the link set has no such link.
\<close>

theorem parent_span_id_follows_link:
  "parent_span_id self =
     map_option (\<lambda>link. span_id (fst link))
       (List.find (is_parent_link (vendor_attr self ''relationship'')) (links self))
 \<and> ((parent_span_id self = None) =
      (\<not> (\<exists>link. link \<in> set (links self)
            \<and> snd link (vendor_attr self ''relationship'') = Some (VStr ''parent''))))"
proof -
  have a: "parent_span_id self =
     map_option (\<lambda>link. span_id (fst link))
       (List.find (is_parent_link (vendor_attr self ''relationship'')) (links self))"
    by (simp add: parent_span_id_def parent_context_def parent_context_loop_find
        split: option.splits)
  show ?thesis unfolding a by (simp add: find_None_iff is_parent_link_def)
qed




text \<open>
  C7. After \<^verbatim>\<open>Span.__init__\<close> the attribute stored under the key of \<^verbatim>\<open>span_type\<close> is the
  name of the span's class, which is the value of the member of \<open>SpanType\<close> that resolves
  to that class.
\<close>

theorem span_type_stored:
  "attributes (Span_init self) (vendor_attr (Span_init self) ''span_type'')
     = Some (VStr (class_name (cls self)))
 \<and> cls (Span_init self) = cls self
 \<and> (\<forall>m. to_class other m = Inr (SpanClass (cls self)) \<longrightarrow>
        attributes (Span_init self) (vendor_attr (Span_init self) ''span_type'')
          = Some (VStr (SpanType_value m)))"
proof -
  have a: "attributes (Span_init self) (vendor_attr (Span_init self) ''span_type'')
     = Some (VStr (class_name (cls self)))"
    by (simp add: Span_init_def set_attribute_def)
  have "class_name (cls self) = SpanType_value m" if "to_class other m = Inr (SpanClass (cls self))" for m
    using that to_class_members[of other m] by auto
  with a show ?thesis by (simp add: Span_init_def set_attribute_def)
qed

theorem span_type_stored_witness:
  "to_class module_object_attrs RETRIEVER = Inr (SpanClass (cls new_span))
 \<and> attributes (Span_init new_span) (vendor_attr (Span_init new_span) ''span_type'')
      = Some (VStr ''SpanRetriever'')"
proof -
  have h: "to_class module_object_attrs RETRIEVER = Inr (SpanClass (cls new_span))"
    by (simp add: to_class_def to_class_value_def module_hasattr_def module_getattr_def
        module_namespace_def new_span_def)
  have "class_name (cls new_span) = ''SpanRetriever''" by (simp add: new_span_def)
  with h span_type_stored[of new_span module_object_attrs] show ?thesis by simp
qed

text \<open>
  C8, as the code has it. Each of the three retrieved fields is validated against its
  own declared type only. Every write, the first one through the descriptor as declared
  and every later one through the initialised descriptor, succeeds exactly when the
  validator accepts the value for the field's type, whatever the span holds for the other
  fields, and it changes the field's own key only. The lengths of the three lists are not
  compared.
\<close>

theorem retrieved_fields_independent:
  assumes "p \<in> set retrieved_fields"
  shows "\<exists>t. typ' p = Some t \<and> declared_type p = Some t \<and>
           (\<forall>q \<in> {p, p\<lparr>forward_initialized := True, tadapter := Some t\<rparr>}.
              AttributeProperty_set V q s v =
                (if V t v
                 then (p\<lparr>forward_initialized := True, tadapter := Some t\<rparr>, None,
                       s\<lparr>attributes := (attributes s)(vendor_attr s (name p) \<mapsto> v)\<rparr>)
                 else (p\<lparr>forward_initialized := True, tadapter := Some t\<rparr>,
                       Some ValidationError, s)))"
proof -
  from retrieved_fields_init[OF assms, of V] obtain t where
    t: "typ' p = Some t"
    and i: "init_forward V p = (None, p\<lparr>forward_initialized := True, tadapter := Some t\<rparr>)"
    by blast
  let ?p' = "p\<lparr>forward_initialized := True, tadapter := Some t\<rparr>"
  have i': "init_forward V ?p' = (None, ?p')" by (rule init_forward_again[OF i])
  have "AttributeProperty_set V q s v =
          (if V t v
           then (?p', None, s\<lparr>attributes := (attributes s)(vendor_attr s (name p) \<mapsto> v)\<rparr>)
           else (?p', Some ValidationError, s))"
    if "init_forward V q = (None, ?p')" for q
    using that by (simp add: AttributeProperty_set_def)
  from this[OF i] this[OF i'] t show ?thesis
    by (simp add: declared_type_def)
qed

theorem retrieved_fields_independent_witness:
  "SpanRetriever_retrieved_scores \<in> set retrieved_fields
 \<and> AttributeProperty_set conforms SpanRetriever_retrieved_scores new_span
      (VList [VFloat 0, VFloat 0x3FF0000000000000]) =
     (SpanRetriever_retrieved_scores\<lparr>forward_initialized := True, tadapter := Some (TList TFloat)\<rparr>,
      None,
      new_span\<lparr>attributes := (attributes new_span)
        (vendor_attr new_span ''retrieved_scores'' \<mapsto> VList [VFloat 0, VFloat 0x3FF0000000000000])\<rparr>)
 \<and> AttributeProperty_set conforms
      (SpanRetriever_retrieved_scores\<lparr>forward_initialized := True, tadapter := Some (TList TFloat)\<rparr>)
      new_span (VStr ''high'') =
     (SpanRetriever_retrieved_scores\<lparr>forward_initialized := True, tadapter := Some (TList TFloat)\<rparr>,
      Some ValidationError, new_span)"
proof -
  let ?p = "SpanRetriever_retrieved_scores"
  have h: "?p \<in> set retrieved_fields"
    by (simp add: retrieved_fields_def)
  have t: "typ' ?p = Some (TList TFloat)"
    and n: "name ?p = ''retrieved_scores''"
    by (simp_all add: SpanRetriever_retrieved_scores_def attribute_property_def
        AttributeProperty_init_def)
  from retrieved_fields_independent[OF h, of conforms new_span
      "VList [VFloat 0, VFloat 0x3FF0000000000000]"]
    retrieved_fields_independent[OF h, of conforms new_span "VStr ''high''"] h t n
  show ?thesis by simp
qed

text \<open>
  On a new retriever span, three contexts and then two scores are both accepted, and the
  span holds lists of different lengths.
\<close>

theorem retrieved_lengths_differ:
  "\<exists>p1 s1 p2 s2.
     AttributeProperty_set conforms SpanRetriever_retrieved_contexts new_span
       (VList [VStr ''a'', VStr ''b'', VStr ''c'']) = (p1, None, s1)
   \<and> AttributeProperty_set conforms SpanRetriever_retrieved_scores s1
       (VList [VFloat 0, VFloat 0x3FF0000000000000]) = (p2, None, s2)
   \<and> field_length s2 SpanRetriever_retrieved_contexts = Some 3
   \<and> field_length s2 SpanRetriever_retrieved_scores = Some 2"
  by (simp add: AttributeProperty_set_def init_forward_def SpanRetriever_retrieved_contexts_def
      SpanRetriever_retrieved_scores_def attribute_property_def AttributeProperty_init_def
      field_length_def new_span_def)

text \<open>
  C9. Assigning \<^verbatim>\<open>None\<close> as the parent context returns the span as it was: the link set
  and \<open>parent_context\<close> are unchanged, so a parent set before is still the parent.
\<close>

theorem parent_none_noop:
  "parent_context_setter self None = Inr self
 \<and> (case parent_context_setter self None of
       Inl e \<Rightarrow> False
     | Inr self' \<Rightarrow> links self' = links self \<and> parent_context self' = parent_context self)"
  by (simp add: parent_context_setter_def)

text \<open>
  C10. Assigning the items \<open>d\<close> of a dictionary to \<^verbatim>\<open>metadata\<close> merges: every key of \<open>d\<close>
  then reads as its value in \<open>d\<close>, every other metadata key reads as before, every
  attribute whose key is not a key of the metadata namespace is unchanged, and nothing
  but the attributes of the span changes.
\<close>

theorem metadata_merge:
  assumes "distinct (map fst d)"
  shows "(\<forall>(k, v) \<in> set d. metadata_getitem sep (metadata_setter sep self d) k = Inr v)
       \<and> (\<forall>k. k \<notin> fst ` set d \<longrightarrow>
             metadata_getitem sep (metadata_setter sep self d) k = metadata_getitem sep self k)
       \<and> (\<forall>a. a \<notin> range (DictNamespace_key sep (attributes_metadata self)) \<longrightarrow>
             attributes (metadata_setter sep self d) a = attributes self a)
       \<and> metadata_setter sep self d = self\<lparr>attributes := attributes (metadata_setter sep self d)\<rparr>"
proof (intro conjI ballI allI impI)
  fix kv assume kv: "kv \<in> set d"
  obtain k v where "kv = (k, v)" by (cases kv)
  with kv metadata_setter_item[OF assms, of k v sep self]
  show "case kv of (k, v) \<Rightarrow> metadata_getitem sep (metadata_setter sep self d) k = Inr v"
    by (simp add: metadata_getitem_def DictNamespace_getitem_def metadata_setter_view)
next
  fix k assume "k \<notin> fst ` set d"
  then have "DictNamespace_key sep (attributes_metadata self) k
      \<notin> DictNamespace_key sep (attributes_metadata self) ` fst ` set d"
    by (simp only: DictNamespace_key_image) simp
  from metadata_setter_other[OF this]
  show "metadata_getitem sep (metadata_setter sep self d) k = metadata_getitem sep self k"
    by (simp add: metadata_getitem_def DictNamespace_getitem_def metadata_setter_view)
next
  fix a assume "a \<notin> range (DictNamespace_key sep (attributes_metadata self))"
  then have "a \<notin> DictNamespace_key sep (attributes_metadata self) ` fst ` set d" by auto
  then show "attributes (metadata_setter sep self d) a = attributes self a"
    by (rule metadata_setter_other)
next
  show "metadata_setter sep self d = self\<lparr>attributes := attributes (metadata_setter sep self d)\<rparr>"
    by (rule metadata_setter_frame)
qed

theorem metadata_merge_witness:
  "distinct (map fst [(''user'', VStr ''ada''), (''run'', VInt 3)])
 \<and> metadata_getitem ''.''
      (metadata_setter ''.'' (Span_init new_span) [(''user'', VStr ''ada''), (''run'', VInt 3)])
      ''user'' = Inr (VStr ''ada'')
 \<and> metadata_getitem ''.''
      (metadata_setter ''.'' (Span_init new_span) [(''user'', VStr ''ada''), (''run'', VInt 3)])
      ''run'' = Inr (VInt 3)
 \<and> attributes
      (metadata_setter ''.'' (Span_init new_span) [(''user'', VStr ''ada''), (''run'', VInt 3)])
      ''vendor@span_type'' = Some (VStr ''SpanRetriever'')"
proof -
  let ?d = "[(''user'', VStr ''ada''), (''run'', VInt 3)]"
  have h: "distinct (map fst ?d)" by simp
  have out: "''vendor@span_type'' \<notin> range (DictNamespace_key ''.'' (attributes_metadata (Span_init new_span)))"
    by (auto simp: DictNamespace_key_def Span_init_def set_attribute_def new_span_def)
  have st: "attributes (Span_init new_span) ''vendor@span_type'' = Some (VStr ''SpanRetriever'')"
    by (simp add: Span_init_def set_attribute_def new_span_def)
  from metadata_merge[OF h, of "''.''" "Span_init new_span"] out st h
  show ?thesis by simp
qed

end
